theory Spec2Isabelle
  imports Main
begin

section \<open>The clan-battle engine of yobot (ybplugins/clan\_battle/battle.py)\<close>

text \<open>
  A shallow embedding of class \<open>ClanBattle\<close>. Python integers are \<open>int\<close>, an optional
  argument or a nullable column is an \<open>option\<close>, a raised exception is the \<open>Inl\<close> of the
  result. Every operation returns its result together with the engine after the call,
  because a call that raises has often already written to the store or to the group
  object it mutates in place.

  The readings of the outside world are arguments: \<open>d\<close> and \<open>t\<close> are the pair that
  \<open>pcr_datetime(area=group.game_server)\<close> returns at the time of the call, \<open>now\<close> is
  \<open>int(time.time())\<close>.

  Not part of the model: the text of the messages (the \<open>info\<close> of a \<open>BossStatus\<close>, the
  nickname shown in it), the JSON \<open>comment\<close> columns, the futures of \<open>_boss_status\<close>
  that publish a status, the caches in front of the nickname and report readers, and
  the chat messages sent to the group.
\<close>

subsection \<open>Exceptions\<close>

datatype reason =
    Not_initialized
  | No_record
  | Nobody_challenging
  | Being_challenged int
  | Started_ago int int
  | Negative_damage
  | Damage_exceeds_health
  | Daily_limit
  | Bad_cycle
  | Bad_boss_num
  | Bad_health
  | No_permission
  | On_tree
  | Already_subscribed

datatype error =
    GroupError reason
  | InputError reason
  | UserError reason
  | KeyError
  | IndexError

fun is_GroupError :: "error + 'a \<Rightarrow> bool" where
  "is_GroupError (Inl (GroupError r)) = True"
| "is_GroupError other = False"

fun is_InputError :: "error + 'a \<Rightarrow> bool" where
  "is_InputError (Inl (InputError r)) = True"
| "is_InputError other = False"

subsection \<open>Rows of the store and the engine\<close>

text \<open>
  The peewee models (\<open>ybdata\<close>) are not among the sources; the records below hold the
  columns that battle.py reads and writes. A challenge row's \<open>boss_cycle\<close> and
  \<open>boss_num\<close> columns are \<open>c_boss_cycle\<close> and \<open>c_boss_num\<close> here, a subscription's
  \<open>gid\<close> and \<open>qqid\<close> are \<open>s_gid\<close> and \<open>s_qqid\<close>. The user table is keyed by the
  \<open>qqid\<close> column, which is therefore not a field of \<open>User\<close>.
\<close>

record Clan_group =
  group_id :: int
  game_server :: string
  boss_cycle :: int
  boss_num :: int
  boss_health :: int
  challenging_member_qq_id :: "int option"
  challenging_start_time :: int
  level_4 :: bool

record Clan_challenge =
  gid :: int
  qqid :: int
  challenge_pcrdate :: int
  challenge_pcrtime :: int
  c_boss_cycle :: int
  c_boss_num :: int
  boss_health_ramain :: int
  challenge_damage :: int
  is_continue :: bool

record Clan_subscribe =
  s_gid :: int
  s_qqid :: int
  subscribe_item :: int

record User =
  clan_group_id :: "int option"
  authority_group :: int

record BossStatus =
  cycle :: int
  num :: int
  health :: int
  challenger :: int

text \<open>
  Modelled from the spec: the challenge table. Its key \<open>cid\<close> is declared in \<open>ybdata\<close>;
  the spec has the records "orderable by insertion sequence" and undo taking the most
  recent one "by record sequence". So \<open>challenge_tbl\<close> lists the rows in insertion
  order: \<open>Clan_challenge.create\<close> appends, \<open>order_by(Clan_challenge.cid)\<close> keeps the
  list order, and the row of \<open>MAX(cid)\<close> among some rows is the last of them.

  \<open>authority_default\<close> is the value a row made by \<open>User.get_or_create\<close> gets for
  \<open>authority_group\<close>, a default of the absent \<open>ybdata\<close> as well.
\<close>

record ClanBattle =
  bossinfo :: "string \<rightharpoonup> int list list"
  group_data :: "int \<rightharpoonup> Clan_group"
  challenge_tbl :: "Clan_challenge list"
  subscribe_tbl :: "Clan_subscribe list"
  user_tbl :: "int \<rightharpoonup> User"
  authority_default :: int

subsection \<open>The stage table\<close>

definition level_by_cycle :: "int \<Rightarrow> bool \<Rightarrow> int" where
  "level_by_cycle cyc lv4 =
     (if cyc \<le> 3 then 0
      else if cyc \<le> 10 then 1
      else if lv4 \<and> cyc \<ge> 35 then 3
      else 2)"

text \<open>\<open>xs[i]\<close> of a Python list: a negative index counts from the end.\<close>

definition subscript :: "'a list \<Rightarrow> int \<Rightarrow> error + 'a" where
  "subscript xs i =
     (if 0 \<le> i \<and> i < int (length xs) then Inr (xs ! nat i)
      else if i < 0 \<and> - int (length xs) \<le> i then Inr (xs ! nat (int (length xs) + i))
      else Inl IndexError)"

text \<open>
  \<open>self.bossinfo[group.game_server][self._level_by_cycle(cycle, level_4)][boss_num-1]\<close>
\<close>

definition full_health :: "ClanBattle \<Rightarrow> string \<Rightarrow> int \<Rightarrow> bool \<Rightarrow> int \<Rightarrow> error + int" where
  "full_health s server cyc lv4 n =
     (case bossinfo s server of
        None \<Rightarrow> Inl KeyError
      | Some levels \<Rightarrow>
          (case subscript levels (level_by_cycle cyc lv4) of
             Inl e \<Rightarrow> Inl e
           | Inr row \<Rightarrow> subscript row (n - 1)))"

subsection \<open>Readers of the store\<close>

definition get_or_create :: "ClanBattle \<Rightarrow> int \<Rightarrow> int option \<Rightarrow> User \<times> ClanBattle" where
  "get_or_create s q grp =
     (case user_tbl s q of
        Some u \<Rightarrow> (u, s)
      | None \<Rightarrow>
          (let u = \<lparr>clan_group_id = grp, authority_group = authority_default s\<rparr>
           in (u, s\<lparr>user_tbl := (user_tbl s)(q \<mapsto> u)\<rparr>)))"

text \<open>
  \<open>_get_nickname_by_qqid\<close> does \<open>User.get_or_create(qqid=qqid)\<close>; the nickname itself is
  not modelled, the row it may create is.
\<close>

definition get_nickname_by_qqid :: "ClanBattle \<Rightarrow> int \<Rightarrow> ClanBattle" where
  "get_nickname_by_qqid s q = snd (get_or_create s q None)"

text \<open>
  The rows of one attacker in one group on one battle-day, in \<open>cid\<close> order: the list
  \<open>challenges\<close> of \<open>damage\<close> and \<open>defeat\<close>.
\<close>

definition challenges_of :: "ClanBattle \<Rightarrow> int \<Rightarrow> int \<Rightarrow> int \<Rightarrow> Clan_challenge list" where
  "challenges_of s g q d =
     filter (\<lambda>c. gid c = g \<and> qqid c = q \<and> challenge_pcrdate c = d) (challenge_tbl s)"

text \<open>\<open>sum((not c.is_continue) for c in challenges)\<close>\<close>

definition count_not_continue :: "Clan_challenge list \<Rightarrow> nat" where
  "count_not_continue cs = length (filter (\<lambda>c. \<not> is_continue c) cs)"

text \<open>
  \<open>challenges and challenges[-1].boss_health_ramain == 0 and not challenges[-1].is_continue\<close>;
  for no rows the Python value is the empty list, stored as false.
\<close>

definition continue_flag :: "Clan_challenge list \<Rightarrow> bool" where
  "continue_flag cs =
     (cs \<noteq> [] \<and> boss_health_ramain (last cs) = 0 \<and> \<not> is_continue (last cs))"

text \<open>\<open>_get_previous_challenge(group_id=g)\<close>: the row of the largest \<open>cid\<close> of the group.\<close>

definition get_previous_challenge :: "ClanBattle \<Rightarrow> int \<Rightarrow> Clan_challenge option" where
  "get_previous_challenge s g =
     (case filter (\<lambda>c. gid c = g) (challenge_tbl s) of
        [] \<Rightarrow> None
      | c # cs \<Rightarrow> Some (last (c # cs)))"

text \<open>
  \<open>last_challenge.delete_instance()\<close> for the row found by \<open>get_previous_challenge\<close>:
  the last row of the group leaves the table.
\<close>

fun delete_first :: "('a \<Rightarrow> bool) \<Rightarrow> 'a list \<Rightarrow> 'a list" where
  "delete_first P [] = []"
| "delete_first P (x # xs) = (if P x then xs else x # delete_first P xs)"

definition delete_previous_challenge :: "int \<Rightarrow> Clan_challenge list \<Rightarrow> Clan_challenge list" where
  "delete_previous_challenge g cs = rev (delete_first (\<lambda>c. gid c = g) (rev cs))"

subsection \<open>The challenge accountant\<close>

text \<open>\<open>damage(group_id, qqid, damage, behalfed)\<close>, lines 240 to 310.\<close>

definition damage ::
  "ClanBattle \<Rightarrow> int \<Rightarrow> int \<Rightarrow> int \<Rightarrow> int option \<Rightarrow> int \<Rightarrow> int \<Rightarrow> (error + BossStatus) \<times> ClanBattle" where
  "damage s g q dmg behalfed d t =
     (if dmg < 0 then (Inl (InputError Negative_damage), s)
      else case group_data s g of
        None \<Rightarrow> (Inl (GroupError Not_initialized), s)
      | Some grp \<Rightarrow>
          if dmg \<ge> boss_health grp then (Inl (InputError Damage_exceeds_health), s)
          else
            let s1 = (case behalfed of None \<Rightarrow> s | Some b \<Rightarrow> get_nickname_by_qqid s q);
                q' = (case behalfed of None \<Rightarrow> q | Some b \<Rightarrow> b);
                s2 = snd (get_or_create s1 q' (Some g));
                challenges = challenges_of s2 g q' d
            in if count_not_continue challenges \<ge> 3 then (Inl (InputError Daily_limit), s2)
               else
                 let challenge =
                       \<lparr>gid = g, qqid = q', challenge_pcrdate = d, challenge_pcrtime = t,
                        c_boss_cycle = boss_cycle grp, c_boss_num = boss_num grp,
                        boss_health_ramain = boss_health grp - dmg,
                        challenge_damage = dmg,
                        is_continue = continue_flag challenges\<rparr>;
                     grp' = grp\<lparr>boss_health := boss_health grp - dmg,
                                    challenging_member_qq_id := None\<rparr>
                 in (Inr \<lparr>cycle = boss_cycle grp', num = boss_num grp',
                          health = boss_health grp', challenger = 0\<rparr>,
                     s2\<lparr>challenge_tbl := challenge_tbl s2 @ [challenge],
                        group_data := (group_data s2)(g \<mapsto> grp')\<rparr>))"

text \<open>
  \<open>notify_subscribe(group_id, boss_num)\<close>: the subscriptions of the new boss and the
  ones of boss 0 are collected and deleted.
\<close>

definition notify_subscribe ::
  "ClanBattle \<Rightarrow> int \<Rightarrow> int option \<Rightarrow> (error + int list) \<times> ClanBattle" where
  "notify_subscribe s g n_opt =
     (case group_data s g of
        None \<Rightarrow> (Inl (GroupError Not_initialized), s)
      | Some grp \<Rightarrow>
          let n = (case n_opt of None \<Rightarrow> boss_num grp | Some k \<Rightarrow> k);
              hit = (\<lambda>sub. s_gid sub = g \<and> (subscribe_item sub = n \<or> subscribe_item sub = 0))
          in (Inr (map s_qqid (filter hit (subscribe_tbl s))),
              s\<lparr>subscribe_tbl := filter (\<lambda>sub. \<not> hit sub) (subscribe_tbl s)\<rparr>))"

text \<open>
  \<open>defeat(group_id, qqid, behalfed)\<close>, lines 312 to 388. The row is created before the
  group object moves to the next boss, and the group object has moved when the stage
  table is read: a failing table lookup leaves both behind.
\<close>

definition defeat ::
  "ClanBattle \<Rightarrow> int \<Rightarrow> int \<Rightarrow> int option \<Rightarrow> int \<Rightarrow> int \<Rightarrow> (error + BossStatus) \<times> ClanBattle" where
  "defeat s g q behalfed d t =
     (case group_data s g of
        None \<Rightarrow> (Inl (GroupError Not_initialized), s)
      | Some grp \<Rightarrow>
          let s1 = (case behalfed of None \<Rightarrow> s | Some b \<Rightarrow> get_nickname_by_qqid s q);
              q' = (case behalfed of None \<Rightarrow> q | Some b \<Rightarrow> b);
              s2 = snd (get_or_create s1 q' (Some g));
              challenges = challenges_of s2 g q' d
          in if count_not_continue challenges \<ge> 3 then (Inl (InputError Daily_limit), s2)
             else
               let challenge =
                     \<lparr>gid = g, qqid = q', challenge_pcrdate = d, challenge_pcrtime = t,
                      c_boss_cycle = boss_cycle grp, c_boss_num = boss_num grp,
                      boss_health_ramain = 0,
                      challenge_damage = boss_health grp,
                      is_continue = continue_flag challenges\<rparr>;
                   s3 = s2\<lparr>challenge_tbl := challenge_tbl s2 @ [challenge]\<rparr>;
                   grp1 = (if boss_num grp = 5
                             then grp\<lparr>boss_num := 1, boss_cycle := boss_cycle grp + 1\<rparr>
                             else grp\<lparr>boss_num := boss_num grp + 1\<rparr>)
               in case full_health s3 (game_server grp1) (boss_cycle grp1)
                         (level_4 grp1) (boss_num grp1) of
                    Inl e \<Rightarrow> (Inl e, s3\<lparr>group_data := (group_data s3)(g \<mapsto> grp1)\<rparr>)
                  | Inr h \<Rightarrow>
                      let grp2 = grp1\<lparr>boss_health := h, challenging_member_qq_id := None\<rparr>;
                          s4 = s3\<lparr>group_data := (group_data s3)(g \<mapsto> grp2)\<rparr>;
                          status = \<lparr>cycle = boss_cycle grp2, num = boss_num grp2,
                                    health = boss_health grp2, challenger = 0\<rparr>;
                          notified = notify_subscribe s4 g (Some (boss_num grp2))
                      in (case fst notified of
                            Inl e \<Rightarrow> (Inl e, snd notified)
                          | Inr notice \<Rightarrow> (Inr status, snd notified)))"

text \<open>\<open>undo(group_id, qqid)\<close>, lines 390 to 430.\<close>

definition undo :: "ClanBattle \<Rightarrow> int \<Rightarrow> int \<Rightarrow> (error + BossStatus) \<times> ClanBattle" where
  "undo s g q =
     (case group_data s g of
        None \<Rightarrow> (Inl (GroupError Not_initialized), s)
      | Some grp \<Rightarrow>
          let created = get_or_create s q (Some g);
              user = fst created;
              s1 = snd created
          in case get_previous_challenge s1 g of
               None \<Rightarrow> (Inl (GroupError No_record), s1)
             | Some last_challenge \<Rightarrow>
                 if qqid last_challenge \<noteq> q \<and> authority_group user \<ge> 100
                 then (Inl (UserError No_permission), s1)
                 else
                   let grp' = grp\<lparr>boss_cycle := c_boss_cycle last_challenge,
                                      boss_num := c_boss_num last_challenge,
                                      boss_health := boss_health_ramain last_challenge
                                                     + challenge_damage last_challenge,
                                      challenging_member_qq_id := None\<rparr>;
                       s2 = s1\<lparr>challenge_tbl := delete_previous_challenge g (challenge_tbl s1),
                               group_data := (group_data s1)(g \<mapsto> grp')\<rparr>;
                       s3 = get_nickname_by_qqid s2 (qqid last_challenge)
                   in (Inr \<lparr>cycle = boss_cycle grp', num = boss_num grp',
                            health = boss_health grp', challenger = 0\<rparr>, s3))"

text \<open>
  \<open>modify(group_id, cycle, boss_num, boss_health)\<close>, lines 432 to 474. The three checks
  are guarded by the truth value of the argument (\<open>if cycle and cycle < 1\<close> is
  \<open>truthy_and cyc (\<lambda>c. c < 1)\<close>), and a Python integer is true when it is not 0; the
  assignments are guarded by \<open>is not None\<close>.
\<close>

definition truthy_and :: "int option \<Rightarrow> (int \<Rightarrow> bool) \<Rightarrow> bool" where
  "truthy_and x P = (case x of None \<Rightarrow> False | Some v \<Rightarrow> v \<noteq> 0 \<and> P v)"

definition modify ::
  "ClanBattle \<Rightarrow> int \<Rightarrow> int option \<Rightarrow> int option \<Rightarrow> int option \<Rightarrow> (error + BossStatus) \<times> ClanBattle" where
  "modify s g cyc bn bh =
     (if truthy_and cyc (\<lambda>c. c < 1) then (Inl (InputError Bad_cycle), s)
      else if truthy_and bn (\<lambda>n. n < 1 \<or> n > 5) then (Inl (InputError Bad_boss_num), s)
      else if truthy_and bh (\<lambda>h. h < 1) then (Inl (InputError Bad_health), s)
      else case group_data s g of
        None \<Rightarrow> (Inl (GroupError Not_initialized), s)
      | Some grp \<Rightarrow>
          let grp1 = (case cyc of None \<Rightarrow> grp | Some c \<Rightarrow> grp\<lparr>boss_cycle := c\<rparr>);
              grp2 = (case bn of None \<Rightarrow> grp1 | Some n \<Rightarrow> grp1\<lparr>boss_num := n\<rparr>);
              looked = (case bh of
                          None \<Rightarrow> full_health s (game_server grp2) (boss_cycle grp2)
                                    (level_4 grp2) (boss_num grp2)
                        | Some h \<Rightarrow> Inr h)
          in case looked of
               Inl e \<Rightarrow> (Inl e, s\<lparr>group_data := (group_data s)(g \<mapsto> grp2)\<rparr>)
             | Inr h \<Rightarrow>
                 let grp3 = grp2\<lparr>boss_health := h\<rparr>
                 in (Inr \<lparr>cycle = boss_cycle grp3, num = boss_num grp3,
                          health = boss_health grp3, challenger = 0\<rparr>,
                     s\<lparr>group_data := (group_data s)(g \<mapsto> grp3)\<rparr>))"

text \<open>\<open>restart(group_id)\<close>, lines 494 to 513; the health is \<open>bossinfo[server][0][0]\<close>.\<close>

definition restart :: "ClanBattle \<Rightarrow> int \<Rightarrow> (error + unit) \<times> ClanBattle" where
  "restart s g =
     (case group_data s g of
        None \<Rightarrow> (Inl (GroupError Not_initialized), s)
      | Some grp \<Rightarrow>
          let grp1 = grp\<lparr>boss_cycle := 1, boss_num := 1\<rparr>;
              looked = (case bossinfo s (game_server grp1) of
                          None \<Rightarrow> Inl KeyError
                        | Some levels \<Rightarrow>
                            (case subscript levels 0 of
                               Inl e \<Rightarrow> Inl e
                             | Inr row \<Rightarrow> subscript row 0))
          in case looked of
               Inl e \<Rightarrow> (Inl e, s\<lparr>group_data := (group_data s)(g \<mapsto> grp1)\<rparr>)
             | Inr h \<Rightarrow>
                 (Inr (),
                  s\<lparr>group_data := (group_data s)(g \<mapsto> grp1\<lparr>boss_health := h\<rparr>),
                    challenge_tbl := filter (\<lambda>c. gid c \<noteq> g) (challenge_tbl s)\<rparr>))"

subsection \<open>Subscriptions\<close>

text \<open>\<open>add_subscribe(group_id, qqid, boss_num)\<close>, lines 533 to 568.\<close>

definition add_subscribe :: "ClanBattle \<Rightarrow> int \<Rightarrow> int \<Rightarrow> int \<Rightarrow> (error + unit) \<times> ClanBattle" where
  "add_subscribe s g q n =
     (case group_data s g of
        None \<Rightarrow> (Inl (GroupError Not_initialized), s)
      | Some grp \<Rightarrow>
          (case find (\<lambda>sub. s_gid sub = g \<and> s_qqid sub = q \<and> subscribe_item sub = n)
                  (subscribe_tbl s) of
             Some sub \<Rightarrow>
               if n = 0 then (Inl (UserError On_tree), s)
               else (Inl (UserError Already_subscribed), s)
           | None \<Rightarrow>
               let s1 = (if n = 0 \<and> challenging_member_qq_id grp = Some q
                         then s\<lparr>group_data :=
                                  (group_data s)(g \<mapsto> grp\<lparr>challenging_member_qq_id := None\<rparr>)\<rparr>
                         else s)
               in (Inr (),
                   s1\<lparr>subscribe_tbl :=
                        subscribe_tbl s1 @ [\<lparr>s_gid = g, s_qqid = q, subscribe_item = n\<rparr>]\<rparr>)))"

text \<open>
  \<open>cancel_subscribe(group_id, qqid, boss_num)\<close>, lines 591 to 605: a delete on the
  subscription table that returns the number of deleted rows. It does not read
  \<open>_group_data\<close> and has no \<open>raise\<close>.
\<close>

definition cancel_subscribe :: "ClanBattle \<Rightarrow> int \<Rightarrow> int \<Rightarrow> int \<Rightarrow> (error + int) \<times> ClanBattle" where
  "cancel_subscribe s g q n =
     (let hit = (\<lambda>sub. s_gid sub = g \<and> s_qqid sub = q \<and> subscribe_item sub = n)
      in (Inr (int (length (filter hit (subscribe_tbl s)))),
          s\<lparr>subscribe_tbl := filter (\<lambda>sub. \<not> hit sub) (subscribe_tbl s)\<rparr>))"

subsection \<open>The challenge slot\<close>

text \<open>\<open>apply_for_challenge(group_id, qqid)\<close>, lines 634 to 668.\<close>

definition apply_for_challenge ::
  "ClanBattle \<Rightarrow> int \<Rightarrow> int \<Rightarrow> int \<Rightarrow> (error + BossStatus) \<times> ClanBattle" where
  "apply_for_challenge s g q now =
     (case group_data s g of
        None \<Rightarrow> (Inl (GroupError Not_initialized), s)
      | Some grp \<Rightarrow>
          (case challenging_member_qq_id grp of
             Some holder \<Rightarrow>
               (Inl (GroupError (Being_challenged holder)), get_nickname_by_qqid s holder)
           | None \<Rightarrow>
               let grp' = grp\<lparr>challenging_member_qq_id := Some q,
                               challenging_start_time := now\<rparr>;
                   s1 = s\<lparr>group_data := (group_data s)(g \<mapsto> grp')\<rparr>
               in (Inr \<lparr>cycle = boss_cycle grp', num = boss_num grp',
                        health = boss_health grp', challenger = q\<rparr>,
                   get_nickname_by_qqid s1 q)))"

text \<open>
  \<open>cancel_application(group_id, qqid)\<close>, lines 670 to 712. \<open>Started_ago holder n\<close> is the
  \<open>GroupError\<close> whose text names the holder and the \<open>challenge_duration\<close> \<open>n\<close>.
\<close>

definition cancel_application ::
  "ClanBattle \<Rightarrow> int \<Rightarrow> int \<Rightarrow> int \<Rightarrow> (error + BossStatus) \<times> ClanBattle" where
  "cancel_application s g q now =
     (case group_data s g of
        None \<Rightarrow> (Inl (GroupError Not_initialized), s)
      | Some grp \<Rightarrow>
          (case challenging_member_qq_id grp of
             None \<Rightarrow> (Inl (GroupError Nobody_challenging), s)
           | Some holder \<Rightarrow>
               let created = get_or_create s q (Some g);
                   user = fst created;
                   s1 = snd created;
                   challenge_duration = now - challenging_start_time grp
               in if (holder \<noteq> q \<and> authority_group user \<ge> 100) \<and> challenge_duration < 180
                  then (Inl (GroupError (Started_ago holder challenge_duration)),
                        get_nickname_by_qqid s1 holder)
                  else
                    let grp' = grp\<lparr>challenging_member_qq_id := None\<rparr>
                    in (Inr \<lparr>cycle = boss_cycle grp', num = boss_num grp',
                             health = boss_health grp', challenger = 0\<rparr>,
                        s1\<lparr>group_data := (group_data s1)(g \<mapsto> grp')\<rparr>)))"

subsection \<open>Readers exposed to the callers\<close>

text \<open>
  \<open>boss_status_summary(group_id)\<close>, lines 219 to 238: the numbers of the summary text
  and the challenger it names.
\<close>

definition boss_status_summary ::
  "ClanBattle \<Rightarrow> int \<Rightarrow> (error + int \<times> int \<times> int \<times> int option) \<times> ClanBattle" where
  "boss_status_summary s g =
     (case group_data s g of
        None \<Rightarrow> (Inl (GroupError Not_initialized), s)
      | Some grp \<Rightarrow>
          (Inr (boss_cycle grp, boss_num grp, boss_health grp, challenging_member_qq_id grp),
           (case challenging_member_qq_id grp of
              None \<Rightarrow> s
            | Some holder \<Rightarrow> get_nickname_by_qqid s holder)))"

text \<open>
  \<open>get_report(group_id, qqid, pcrdate)\<close>, lines 715 to 756: the rows of the group,
  ordered by \<open>qqid\<close> and then \<open>cid\<close>.
\<close>

definition get_report :: "ClanBattle \<Rightarrow> int \<Rightarrow> int option \<Rightarrow> int option \<Rightarrow> error + Clan_challenge list" where
  "get_report s g q_opt d_opt =
     (case group_data s g of
        None \<Rightarrow> Inl (GroupError Not_initialized)
      | Some grp \<Rightarrow>
          Inr (sort_key qqid
                 (filter (\<lambda>c. gid c = g
                              \<and> (case q_opt of None \<Rightarrow> True | Some q \<Rightarrow> qqid c = q)
                              \<and> (case d_opt of None \<Rightarrow> True | Some d \<Rightarrow> challenge_pcrdate c = d))
                    (challenge_tbl s))))"

subsection \<open>A group in play\<close>

text \<open>
  A stage table of four tiers for server \<open>jp\<close> and the group 1 at the start of a
  battle; the examples below run the operations from here. Attacker 7 is an ordinary
  member (authority 100), user 2 an administrator (authority 10).
\<close>

definition jp_table :: "int list list" where
  "jp_table =
     [[600, 800, 1000, 1200, 1500],
      [601, 801, 1001, 1201, 1501],
      [700, 900, 1300, 1500, 2000],
      [703, 903, 1303, 1503, 2003]]"

definition group1 :: Clan_group where
  "group1 =
     \<lparr>group_id = 1, game_server = ''jp'', boss_cycle = 1, boss_num = 1, boss_health = 600,
      challenging_member_qq_id = None, challenging_start_time = 0, level_4 = False\<rparr>"

definition engine0 :: ClanBattle where
  "engine0 =
     \<lparr>bossinfo = [''jp'' \<mapsto> jp_table],
      group_data = [1 \<mapsto> group1],
      challenge_tbl = [],
      subscribe_tbl = [],
      user_tbl = [7 \<mapsto> \<lparr>clan_group_id = Some 1, authority_group = 100\<rparr>,
                  2 \<mapsto> \<lparr>clan_group_id = Some 1, authority_group = 10\<rparr>],
      authority_default = 100\<rparr>"

subsection \<open>Notions used in the statements\<close>

text \<open>
  The attacker a call is accounted to: \<open>behalfed\<close> when it is given, else the caller
  (\<open>qqid = behalfed\<close> on lines 261 and 328).
\<close>

definition attacker :: "int \<Rightarrow> int option \<Rightarrow> int" where
  "attacker q behalfed = (case behalfed of None \<Rightarrow> q | Some b \<Rightarrow> b)"

text \<open>
  The engine at the quota check of \<open>damage\<close> and \<open>defeat\<close>: the user rows of the caller
  and of the attacker exist, nothing else has moved.
\<close>

definition charged :: "ClanBattle \<Rightarrow> int \<Rightarrow> int \<Rightarrow> int option \<Rightarrow> ClanBattle" where
  "charged s g q behalfed =
     snd (get_or_create (case behalfed of None \<Rightarrow> s | Some b \<Rightarrow> get_nickname_by_qqid s q)
            (attacker q behalfed) (Some g))"

text \<open>The group object after lines 361 to 365 of \<open>defeat\<close>.\<close>

definition next_boss :: "Clan_group \<Rightarrow> Clan_group" where
  "next_boss grp =
     (if boss_num grp = 5 then grp\<lparr>boss_num := 1, boss_cycle := boss_cycle grp + 1\<rparr>
      else grp\<lparr>boss_num := boss_num grp + 1\<rparr>)"

text \<open>The rows that \<open>damage\<close> and \<open>defeat\<close> create.\<close>

definition damage_row ::
  "Clan_group \<Rightarrow> int \<Rightarrow> int \<Rightarrow> int \<Rightarrow> int \<Rightarrow> int \<Rightarrow> bool \<Rightarrow> Clan_challenge" where
  "damage_row grp g a d t dmg flag =
     \<lparr>gid = g, qqid = a, challenge_pcrdate = d, challenge_pcrtime = t,
      c_boss_cycle = boss_cycle grp, c_boss_num = boss_num grp,
      boss_health_ramain = boss_health grp - dmg, challenge_damage = dmg,
      is_continue = flag\<rparr>"

definition defeat_row :: "Clan_group \<Rightarrow> int \<Rightarrow> int \<Rightarrow> int \<Rightarrow> int \<Rightarrow> bool \<Rightarrow> Clan_challenge" where
  "defeat_row grp g a d t flag =
     \<lparr>gid = g, qqid = a, challenge_pcrdate = d, challenge_pcrtime = t,
      c_boss_cycle = boss_cycle grp, c_boss_num = boss_num grp,
      boss_health_ramain = 0, challenge_damage = boss_health grp, is_continue = flag\<rparr>"

text \<open>The \<open>authority_group\<close> of the row that \<open>User.get_or_create\<close> returns for \<open>q\<close>.\<close>

definition authority_of :: "ClanBattle \<Rightarrow> int \<Rightarrow> int" where
  "authority_of s q =
     (case user_tbl s q of None \<Rightarrow> authority_default s | Some u \<Rightarrow> authority_group u)"

text \<open>Sequences of \<open>damage\<close> and \<open>defeat\<close> calls, each with its own clock reading.\<close>

datatype call =
    Damage int int int "int option" int int
  | Defeat int int "int option" int int

fun after_call :: "ClanBattle \<Rightarrow> call \<Rightarrow> ClanBattle" where
  "after_call s (Damage g q dmg b d t) = snd (damage s g q dmg b d t)"
| "after_call s (Defeat g q b d t) = snd (defeat s g q b d t)"

fun after_calls :: "ClanBattle \<Rightarrow> call list \<Rightarrow> ClanBattle" where
  "after_calls s [] = s"
| "after_calls s (c # cs) = after_calls (after_call s c) cs"




text \<open>
  Nothing in the engine is negative: no value of the stage table, no health of a
  group, and no remaining health or damage of a row of the challenge table (\<open>undo\<close>
  makes the health of the group from the two).
\<close>

definition non_negative :: "ClanBattle \<Rightarrow> bool" where
  "non_negative s \<longleftrightarrow>
     (\<forall>server levels. bossinfo s server = Some levels \<longrightarrow>
        (\<forall>row \<in> set levels. \<forall>v \<in> set row. 0 \<le> v))
     \<and> (\<forall>g grp. group_data s g = Some grp \<longrightarrow> 0 \<le> boss_health grp)
     \<and> (\<forall>r \<in> set (challenge_tbl s). 0 \<le> boss_health_ramain r \<and> 0 \<le> challenge_damage r)"

text \<open>
  Day 20 after attacker 7 has reported two hits of 100 and then the kill of boss 1:
  three rows, none a continuation, the last one with no health remaining.
\<close>

definition third_kill :: ClanBattle where
  "third_kill =
     after_calls engine0
       [Damage 1 7 100 None 20 1, Damage 1 7 100 None 20 2, Defeat 1 7 None 20 3]"

text \<open>
  Day 20 after attacker 7 has reported the kill of boss 1 as the first attack, and
  after the hit of 5 on boss 2 that follows it.
\<close>

definition first_kill :: ClanBattle where
  "first_kill = after_calls engine0 [Defeat 1 7 None 20 1]"

definition followed_up :: ClanBattle where
  "followed_up = after_calls engine0 [Defeat 1 7 None 20 1, Damage 1 7 5 None 20 2]"

text \<open>Group 1 moved to the last boss of cycle 3 with \<open>modify\<close>.\<close>

definition last_boss :: ClanBattle where
  "last_boss = snd (modify engine0 1 (Some 3) (Some 5) None)"

text \<open>Attacker 7 holds the challenge slot of group 1 since second 1000.\<close>

definition claimed :: ClanBattle where
  "claimed = snd (apply_for_challenge engine0 1 7 1000)"

section \<open>Properties\<close>

subsection \<open>Unfolding the operations\<close>

lemma get_or_create_keeps [simp]:
  "group_data (snd (get_or_create s q x)) = group_data s"
  "challenge_tbl (snd (get_or_create s q x)) = challenge_tbl s"
  "subscribe_tbl (snd (get_or_create s q x)) = subscribe_tbl s"
  "bossinfo (snd (get_or_create s q x)) = bossinfo s"
  "authority_default (snd (get_or_create s q x)) = authority_default s"
  by (simp_all add: get_or_create_def Let_def split: option.split)

lemma get_nickname_keeps [simp]:
  "group_data (get_nickname_by_qqid s q) = group_data s"
  "challenge_tbl (get_nickname_by_qqid s q) = challenge_tbl s"
  "subscribe_tbl (get_nickname_by_qqid s q) = subscribe_tbl s"
  "bossinfo (get_nickname_by_qqid s q) = bossinfo s"
  "authority_default (get_nickname_by_qqid s q) = authority_default s"
  by (simp_all add: get_nickname_by_qqid_def)

lemma challenges_of_tbl:
  "challenge_tbl s' = challenge_tbl s \<Longrightarrow> challenges_of s' g q d = challenges_of s g q d"
  by (simp add: challenges_of_def)

lemma full_health_tbl:
  "bossinfo s' = bossinfo s \<Longrightarrow> full_health s' sv c l n = full_health s sv c l n"
  by (simp add: full_health_def)

lemma charged_keeps [simp]:
  "group_data (charged s g q b) = group_data s"
  "challenge_tbl (charged s g q b) = challenge_tbl s"
  "subscribe_tbl (charged s g q b) = subscribe_tbl s"
  "bossinfo (charged s g q b) = bossinfo s"
  by (simp_all add: charged_def split: option.split)

lemma charged_challenges [simp]:
  "challenges_of (charged s g q b) g' q' d = challenges_of s g' q' d"
  by (simp add: challenges_of_def)

lemma damage_row_keys [simp]:
  "gid (damage_row grp g a d t dmg f) = g"
  "qqid (damage_row grp g a d t dmg f) = a"
  "challenge_pcrdate (damage_row grp g a d t dmg f) = d"
  "is_continue (damage_row grp g a d t dmg f) = f"
  "boss_health_ramain (damage_row grp g a d t dmg f) = boss_health grp - dmg"
  "challenge_damage (damage_row grp g a d t dmg f) = dmg"
  "c_boss_cycle (damage_row grp g a d t dmg f) = boss_cycle grp"
  "c_boss_num (damage_row grp g a d t dmg f) = boss_num grp"
  by (simp_all add: damage_row_def)

lemma defeat_row_keys [simp]:
  "gid (defeat_row grp g a d t f) = g"
  "qqid (defeat_row grp g a d t f) = a"
  "challenge_pcrdate (defeat_row grp g a d t f) = d"
  "is_continue (defeat_row grp g a d t f) = f"
  "boss_health_ramain (defeat_row grp g a d t f) = 0"
  "challenge_damage (defeat_row grp g a d t f) = boss_health grp"
  by (simp_all add: defeat_row_def)

lemma damage_unfold:
  "damage s g q dmg b d t =
     (if dmg < 0 then (Inl (InputError Negative_damage), s)
      else case group_data s g of
        None \<Rightarrow> (Inl (GroupError Not_initialized), s)
      | Some grp \<Rightarrow>
          if dmg \<ge> boss_health grp then (Inl (InputError Damage_exceeds_health), s)
          else if count_not_continue (challenges_of s g (attacker q b) d) \<ge> 3
          then (Inl (InputError Daily_limit), charged s g q b)
          else (Inr \<lparr>cycle = boss_cycle grp, num = boss_num grp,
                     health = boss_health grp - dmg, challenger = 0\<rparr>,
                (charged s g q b)
                  \<lparr>challenge_tbl := challenge_tbl s @
                     [damage_row grp g (attacker q b) d t dmg
                        (continue_flag (challenges_of s g (attacker q b) d))],
                   group_data := (group_data s)(g \<mapsto>
                     grp\<lparr>boss_health := boss_health grp - dmg,
                         challenging_member_qq_id := None\<rparr>)\<rparr>))"
  by (cases b) (simp_all add: damage_def charged_def attacker_def damage_row_def Let_def
        challenges_of_def split: option.split)

lemma next_boss_keeps [simp]:
  "game_server (next_boss grp) = game_server grp"
  "level_4 (next_boss grp) = level_4 grp"
  "boss_health (next_boss grp) = boss_health grp"
  "challenging_member_qq_id (next_boss grp) = challenging_member_qq_id grp"
  by (simp_all add: next_boss_def)

lemma defeat_unfold:
  "defeat s g q b d t =
     (case group_data s g of
        None \<Rightarrow> (Inl (GroupError Not_initialized), s)
      | Some grp \<Rightarrow>
          if count_not_continue (challenges_of s g (attacker q b) d) \<ge> 3
          then (Inl (InputError Daily_limit), charged s g q b)
          else
            (case full_health s (game_server grp) (boss_cycle (next_boss grp)) (level_4 grp)
                    (boss_num (next_boss grp)) of
               Inl e \<Rightarrow>
                 (Inl e,
                  (charged s g q b)
                    \<lparr>challenge_tbl := challenge_tbl s @
                       [defeat_row grp g (attacker q b) d t
                          (continue_flag (challenges_of s g (attacker q b) d))],
                     group_data := (group_data s)(g \<mapsto> next_boss grp)\<rparr>)
             | Inr h \<Rightarrow>
                 (Inr \<lparr>cycle = boss_cycle (next_boss grp), num = boss_num (next_boss grp),
                       health = h, challenger = 0\<rparr>,
                  (charged s g q b)
                    \<lparr>challenge_tbl := challenge_tbl s @
                       [defeat_row grp g (attacker q b) d t
                          (continue_flag (challenges_of s g (attacker q b) d))],
                     group_data := (group_data s)(g \<mapsto>
                       (next_boss grp)\<lparr>boss_health := h, challenging_member_qq_id := None\<rparr>),
                     subscribe_tbl :=
                       filter (\<lambda>sub. \<not> (s_gid sub = g \<and>
                                 (subscribe_item sub = boss_num (next_boss grp)
                                  \<or> subscribe_item sub = 0)))
                         (subscribe_tbl s)\<rparr>)))"
  by (cases b)
     (simp_all add: defeat_def charged_def attacker_def Let_def challenges_of_def
        next_boss_def defeat_row_def notify_subscribe_def full_health_def
        split: option.split sum.split)

lemma authority_of_get_or_create [simp]:
  "authority_group (fst (get_or_create s q x)) = authority_of s q"
  by (simp add: get_or_create_def authority_of_def Let_def split: option.split)

lemma cancel_application_held:
  assumes "group_data s g = Some grp" and "challenging_member_qq_id grp = Some holder"
  shows "cancel_application s g q now =
           (if holder \<noteq> q \<and> 100 \<le> authority_of s q
               \<and> now - challenging_start_time grp < 180
            then (Inl (GroupError (Started_ago holder (now - challenging_start_time grp))),
                  get_nickname_by_qqid (snd (get_or_create s q (Some g))) holder)
            else (Inr \<lparr>cycle = boss_cycle grp, num = boss_num grp,
                       health = boss_health grp, challenger = 0\<rparr>,
                  (snd (get_or_create s q (Some g)))
                    \<lparr>group_data := (group_data s)(g \<mapsto>
                       grp\<lparr>challenging_member_qq_id := None\<rparr>)\<rparr>))"
  using assms by (simp add: cancel_application_def Let_def)

subsection \<open>Rows, accepted calls and refused calls\<close>

lemma count_not_continue_append:
  "count_not_continue (cs @ [c]) = count_not_continue cs + (if is_continue c then 0 else 1)"
  by (simp add: count_not_continue_def)

lemma challenges_of_append:
  assumes "challenge_tbl s' = challenge_tbl s @ [r]"
  shows "challenges_of s' g a d =
           challenges_of s g a d @
             (if gid r = g \<and> qqid r = a \<and> challenge_pcrdate r = d then [r] else [])"
  using assms by (simp add: challenges_of_def)

lemma damage_accepted_rows:
  assumes "group_data s g = Some grp" "0 \<le> dmg" "dmg < boss_health grp"
    and "count_not_continue (challenges_of s g (attacker q b) d) < 3"
  shows "challenges_of (snd (damage s g q dmg b d t)) g (attacker q b) d =
           challenges_of s g (attacker q b) d @
             [damage_row grp g (attacker q b) d t dmg
                (continue_flag (challenges_of s g (attacker q b) d))]"
  using assms by (simp add: damage_unfold challenges_of_def)

lemma defeat_accepted_rows:
  assumes "group_data s g = Some grp"
    and "count_not_continue (challenges_of s g (attacker q b) d) < 3"
  shows "challenges_of (snd (defeat s g q b d t)) g (attacker q b) d =
           challenges_of s g (attacker q b) d @
             [defeat_row grp g (attacker q b) d t
                (continue_flag (challenges_of s g (attacker q b) d))]"
  using assms by (simp add: defeat_unfold challenges_of_def split: sum.split)

lemma quota_reached_damage:
  assumes "group_data s g = Some grp"
    and "3 \<le> count_not_continue (challenges_of s g (attacker q b) d)"
  shows "is_InputError (fst (damage s g q dmg b d t))"
    and "challenge_tbl (snd (damage s g q dmg b d t)) = challenge_tbl s"
    and "group_data (snd (damage s g q dmg b d t)) = group_data s"
  using assms by (simp_all add: damage_unfold)

lemma quota_reached_defeat:
  assumes "group_data s g = Some grp"
    and "3 \<le> count_not_continue (challenges_of s g (attacker q b) d)"
  shows "fst (defeat s g q b d t) = Inl (InputError Daily_limit)"
    and "challenge_tbl (snd (defeat s g q b d t)) = challenge_tbl s"
    and "group_data (snd (defeat s g q b d t)) = group_data s"
  using assms by (simp_all add: defeat_unfold)

lemma damage_success:
  assumes "group_data s g = Some grp" and "fst (damage s g q dmg b d t) = Inr st"
  shows "0 \<le> dmg" and "dmg < boss_health grp"
    and "st = \<lparr>cycle = boss_cycle grp, num = boss_num grp,
               health = boss_health grp - dmg, challenger = 0\<rparr>"
    and "group_data (snd (damage s g q dmg b d t)) g =
           Some (grp\<lparr>boss_health := boss_health grp - dmg,
                     challenging_member_qq_id := None\<rparr>)"
  using assms by (auto simp add: damage_unfold split: if_splits)

lemma damage_success_tbl:
  assumes "group_data s g = Some grp" and "fst (damage s g q dmg b d t) = Inr st"
  shows "challenge_tbl (snd (damage s g q dmg b d t)) =
           challenge_tbl s @
             [damage_row grp g (attacker q b) d t dmg
                (continue_flag (challenges_of s g (attacker q b) d))]"
  using assms by (auto simp add: damage_unfold split: if_splits)

lemma defeat_success:
  assumes "group_data s g = Some grp" and "fst (defeat s g q b d t) = Inr st"
  shows "full_health s (game_server grp) (boss_cycle (next_boss grp)) (level_4 grp)
           (boss_num (next_boss grp)) = Inr (health st)"
    and "st = \<lparr>cycle = boss_cycle (next_boss grp), num = boss_num (next_boss grp),
               health = health st, challenger = 0\<rparr>"
    and "group_data (snd (defeat s g q b d t)) g =
           Some ((next_boss grp)\<lparr>boss_health := health st,
                                 challenging_member_qq_id := None\<rparr>)"
  using assms by (auto simp add: defeat_unfold split: if_splits sum.splits)


lemma get_previous_challenge_keeps [simp]:
  "get_previous_challenge (snd (get_or_create s q x)) g = get_previous_challenge s g"
  by (simp add: get_previous_challenge_def)



subsection \<open>The engines of the examples, evaluated\<close>

lemma engine0_group: "group_data engine0 1 = Some group1"
  by (simp add: engine0_def)

lemma first_kill_group:
  "group_data first_kill 1 =
     Some \<lparr>group_id = 1, game_server = ''jp'', boss_cycle = 1, boss_num = 2,
           boss_health = 800, challenging_member_qq_id = None,
           challenging_start_time = 0, level_4 = False\<rparr>"
  by code_simp

lemma first_kill_rows:
  "challenge_tbl first_kill =
     [\<lparr>gid = 1, qqid = 7, challenge_pcrdate = 20, challenge_pcrtime = 1,
       c_boss_cycle = 1, c_boss_num = 1, boss_health_ramain = 0,
       challenge_damage = 600, is_continue = False\<rparr>]"
  by code_simp

lemma followed_up_group:
  "group_data followed_up 1 =
     Some \<lparr>group_id = 1, game_server = ''jp'', boss_cycle = 1, boss_num = 2,
           boss_health = 795, challenging_member_qq_id = None,
           challenging_start_time = 0, level_4 = False\<rparr>"
  by code_simp

lemma followed_up_rows:
  "challenge_tbl followed_up =
     [\<lparr>gid = 1, qqid = 7, challenge_pcrdate = 20, challenge_pcrtime = 1,
       c_boss_cycle = 1, c_boss_num = 1, boss_health_ramain = 0,
       challenge_damage = 600, is_continue = False\<rparr>,
      \<lparr>gid = 1, qqid = 7, challenge_pcrdate = 20, challenge_pcrtime = 2,
       c_boss_cycle = 1, c_boss_num = 2, boss_health_ramain = 795,
       challenge_damage = 5, is_continue = True\<rparr>]"
  by code_simp

lemma third_kill_group:
  "group_data third_kill 1 =
     Some \<lparr>group_id = 1, game_server = ''jp'', boss_cycle = 1, boss_num = 2,
           boss_health = 800, challenging_member_qq_id = None,
           challenging_start_time = 0, level_4 = False\<rparr>"
  by code_simp

lemma third_kill_rows:
  "challenge_tbl third_kill =
     [\<lparr>gid = 1, qqid = 7, challenge_pcrdate = 20, challenge_pcrtime = 1,
       c_boss_cycle = 1, c_boss_num = 1, boss_health_ramain = 500,
       challenge_damage = 100, is_continue = False\<rparr>,
      \<lparr>gid = 1, qqid = 7, challenge_pcrdate = 20, challenge_pcrtime = 2,
       c_boss_cycle = 1, c_boss_num = 1, boss_health_ramain = 400,
       challenge_damage = 100, is_continue = False\<rparr>,
      \<lparr>gid = 1, qqid = 7, challenge_pcrdate = 20, challenge_pcrtime = 3,
       c_boss_cycle = 1, c_boss_num = 1, boss_health_ramain = 0,
       challenge_damage = 400, is_continue = False\<rparr>]"
  by code_simp

lemma last_boss_group:
  "group_data last_boss 1 =
     Some \<lparr>group_id = 1, game_server = ''jp'', boss_cycle = 3, boss_num = 5,
           boss_health = 1500, challenging_member_qq_id = None,
           challenging_start_time = 0, level_4 = False\<rparr>"
  by code_simp

lemma claimed_group:
  "group_data claimed 1 =
     Some \<lparr>group_id = 1, game_server = ''jp'', boss_cycle = 1, boss_num = 1,
           boss_health = 600, challenging_member_qq_id = Some 7,
           challenging_start_time = 1000, level_4 = False\<rparr>"
  by code_simp

lemma claimed_authority:
  "authority_of claimed 7 = 100" "authority_of claimed 8 = 100" "authority_of claimed 2 = 10"
  by code_simp+

subsection \<open>The follow-up of a kill\<close>

text \<open>
  C1, as the code has it. In an initialized group, let \<open>cs\<close> be the rows of the
  attacker on the battle-day of the call. When \<open>cs\<close> holds fewer than three rows that
  are not continuations and its last row is a kill (no health remaining) that is not
  a continuation, a \<open>defeat\<close>, and a \<open>damage\<close> of an amount from 0 up to the health
  minus 1, appends a row flagged as continuation, and the number of rows that count
  against the quota stays the same. When the last row of \<open>cs\<close> is a continuation the
  appended row is not flagged and counts. When \<open>cs\<close> holds three rows that are not
  continuations, both calls raise \<open>InputError\<close> and append nothing, whatever the last
  row is: the quota is checked before the flag is computed.
\<close>

theorem continuation_within_quota:
  fixes s :: ClanBattle and g q dmg d t :: int and b :: "int option"
  defines "cs \<equiv> challenges_of s g (attacker q b) d"
  defines "cs1 \<equiv> challenges_of (snd (damage s g q dmg b d t)) g (attacker q b) d"
  defines "cs2 \<equiv> challenges_of (snd (defeat s g q b d t)) g (attacker q b) d"
  assumes init: "group_data s g = Some grp"
  shows "(cs \<noteq> [] \<and> boss_health_ramain (last cs) = 0 \<and> \<not> is_continue (last cs)
            \<and> count_not_continue cs < 3 \<longrightarrow>
            (0 \<le> dmg \<and> dmg < boss_health grp \<longrightarrow>
               butlast cs1 = cs \<and> cs1 \<noteq> [] \<and> is_continue (last cs1)
               \<and> count_not_continue cs1 = count_not_continue cs)
            \<and> butlast cs2 = cs \<and> cs2 \<noteq> [] \<and> is_continue (last cs2)
            \<and> count_not_continue cs2 = count_not_continue cs)
       \<and> (cs \<noteq> [] \<and> is_continue (last cs) \<and> count_not_continue cs < 3 \<longrightarrow>
            (0 \<le> dmg \<and> dmg < boss_health grp \<longrightarrow>
               butlast cs1 = cs \<and> cs1 \<noteq> [] \<and> \<not> is_continue (last cs1)
               \<and> count_not_continue cs1 = count_not_continue cs + 1)
            \<and> butlast cs2 = cs \<and> cs2 \<noteq> [] \<and> \<not> is_continue (last cs2)
            \<and> count_not_continue cs2 = count_not_continue cs + 1)
       \<and> (3 \<le> count_not_continue cs \<longrightarrow>
            is_InputError (fst (damage s g q dmg b d t))
            \<and> is_InputError (fst (defeat s g q b d t))
            \<and> cs1 = cs \<and> cs2 = cs)"
proof (intro conjI impI)
  assume "3 \<le> count_not_continue cs"
  then have full: "3 \<le> count_not_continue (challenges_of s g (attacker q b) d)"
    by (simp add: cs_def)
  show "is_InputError (fst (damage s g q dmg b d t))"
    by (rule quota_reached_damage(1) [OF init full])
  show "is_InputError (fst (defeat s g q b d t))"
    by (simp add: quota_reached_defeat(1) [OF init full])
  show "cs1 = cs"
    by (simp add: cs1_def cs_def challenges_of_def quota_reached_damage(2) [OF init full])
  show "cs2 = cs"
    by (simp add: cs2_def cs_def challenges_of_def quota_reached_defeat(2) [OF init full])
qed (simp_all add: cs_def cs1_def cs2_def damage_accepted_rows [OF init]
       defeat_accepted_rows [OF init] count_not_continue_append continue_flag_def)

theorem continuation_within_quota_witness:
  "is_continue (last (challenges_of (snd (damage first_kill 1 7 5 None 20 2)) 1 7 20))
   \<and> count_not_continue (challenges_of (snd (damage first_kill 1 7 5 None 20 2)) 1 7 20) = 1
   \<and> is_continue (last (challenges_of (snd (defeat first_kill 1 7 None 20 2)) 1 7 20))
   \<and> \<not> is_continue (last (challenges_of (snd (damage followed_up 1 7 5 None 20 3)) 1 7 20))
   \<and> \<not> is_continue (last (challenges_of (snd (defeat followed_up 1 7 None 20 3)) 1 7 20))
   \<and> is_InputError (fst (damage third_kill 1 7 5 None 20 4))
   \<and> is_InputError (fst (defeat third_kill 1 7 None 20 4))"
  using continuation_within_quota [OF first_kill_group, where q = 7 and b = None and d = 20
          and dmg = 5 and t = 2]
        continuation_within_quota [OF followed_up_group, where q = 7 and b = None and d = 20
          and dmg = 5 and t = 3]
        continuation_within_quota [OF third_kill_group, where q = 7 and b = None and d = 20
          and dmg = 5 and t = 4]
  by (simp add: attacker_def challenges_of_def count_not_continue_def
        first_kill_rows followed_up_rows third_kill_rows)

text \<open>
  C1, as the claim has it, fails after a third attack that kills: attacker 7 has three
  rows on day 20, the last one a kill that is not a continuation, and the follow-up
  is refused by both operations.
\<close>

theorem continuation_after_third_kill_rejected:
  "challenges_of third_kill 1 7 20 \<noteq> []
   \<and> boss_health_ramain (last (challenges_of third_kill 1 7 20)) = 0
   \<and> \<not> is_continue (last (challenges_of third_kill 1 7 20))
   \<and> count_not_continue (challenges_of third_kill 1 7 20) = 3
   \<and> fst (damage third_kill 1 7 5 None 20 4) = Inl (InputError Daily_limit)
   \<and> fst (defeat third_kill 1 7 None 20 4) = Inl (InputError Daily_limit)
   \<and> challenge_tbl (snd (damage third_kill 1 7 5 None 20 4)) = challenge_tbl third_kill
   \<and> challenge_tbl (snd (defeat third_kill 1 7 None 20 4)) = challenge_tbl third_kill"
  by (simp add: damage_unfold defeat_unfold third_kill_group third_kill_rows
        challenges_of_def count_not_continue_def attacker_def)

subsection \<open>The daily quota\<close>

lemma damage_tbl_cases:
  "challenge_tbl (snd (damage s g q dmg b d t)) = challenge_tbl s
   \<or> (count_not_continue (challenges_of s g (attacker q b) d) < 3
      \<and> (\<exists>r. gid r = g \<and> qqid r = attacker q b \<and> challenge_pcrdate r = d
             \<and> challenge_tbl (snd (damage s g q dmg b d t)) = challenge_tbl s @ [r]))"
  by (simp add: damage_unfold split: option.split)

lemma defeat_tbl_cases:
  "challenge_tbl (snd (defeat s g q b d t)) = challenge_tbl s
   \<or> (count_not_continue (challenges_of s g (attacker q b) d) < 3
      \<and> (\<exists>r. gid r = g \<and> qqid r = attacker q b \<and> challenge_pcrdate r = d
             \<and> challenge_tbl (snd (defeat s g q b d t)) = challenge_tbl s @ [r]))"
  by (simp add: defeat_unfold split: option.split sum.split)

lemma quota_step:
  assumes inv: "\<forall>g a d. count_not_continue (challenges_of s g a d) \<le> 3"
    and step: "challenge_tbl s' = challenge_tbl s
       \<or> (count_not_continue (challenges_of s g0 a0 d0) < 3
          \<and> (\<exists>r. gid r = g0 \<and> qqid r = a0 \<and> challenge_pcrdate r = d0
                 \<and> challenge_tbl s' = challenge_tbl s @ [r]))"
  shows "\<forall>g a d. count_not_continue (challenges_of s' g a d) \<le> 3"
proof (intro allI)
  fix g a d
  from step show "count_not_continue (challenges_of s' g a d) \<le> 3"
  proof
    assume "challenge_tbl s' = challenge_tbl s"
    then have "challenges_of s' g a d = challenges_of s g a d"
      by (rule challenges_of_tbl)
    with inv show ?thesis by simp
  next
    assume "count_not_continue (challenges_of s g0 a0 d0) < 3
          \<and> (\<exists>r. gid r = g0 \<and> qqid r = a0 \<and> challenge_pcrdate r = d0
                 \<and> challenge_tbl s' = challenge_tbl s @ [r])"
    then obtain r where below: "count_not_continue (challenges_of s g0 a0 d0) < 3"
      and keys: "gid r = g0" "qqid r = a0" "challenge_pcrdate r = d0"
      and tbl: "challenge_tbl s' = challenge_tbl s @ [r]"
      by blast
    show ?thesis
    proof (cases "g = g0 \<and> a = a0 \<and> d = d0")
      case True
      with below keys show ?thesis
        by (simp add: challenges_of_append [OF tbl] count_not_continue_append)
    next
      case False
      with keys have "challenges_of s' g a d = challenges_of s g a d"
        by (auto simp add: challenges_of_append [OF tbl])
      with inv show ?thesis by simp
    qed
  qed
qed

lemma quota_after_call:
  assumes "\<forall>g a d. count_not_continue (challenges_of s g a d) \<le> 3"
  shows "\<forall>g a d. count_not_continue (challenges_of (after_call s c) g a d) \<le> 3"
proof (cases c)
  case (Damage g q dmg b d t)
  show ?thesis
    unfolding Damage after_call.simps
    by (rule quota_step [OF assms damage_tbl_cases])
next
  case (Defeat g q b d t)
  show ?thesis
    unfolding Defeat after_call.simps
    by (rule quota_step [OF assms defeat_tbl_cases])
qed

lemma quota_after_calls:
  "\<forall>g a d. count_not_continue (challenges_of s g a d) \<le> 3 \<Longrightarrow>
   \<forall>g a d. count_not_continue (challenges_of (after_calls s cs) g a d) \<le> 3"
proof (induction cs arbitrary: s)
  case Nil
  then show ?case by simp
next
  case (Cons c cs)
  from Cons.prems have "\<forall>g a d. count_not_continue (challenges_of (after_call s c) g a d) \<le> 3"
    by (rule quota_after_call)
  then show ?case
    using Cons.IH by simp
qed

text \<open>
  C2. When no attacker has more than three rows that are not continuations in any
  group on any battle-day (as in an engine with no rows), the same holds after every
  sequence of \<open>damage\<close> and \<open>defeat\<close> calls, whatever their groups, attackers, amounts
  and clock readings. In an initialized group, a \<open>damage\<close> or \<open>defeat\<close> call for an
  attacker who has three such rows on the battle-day of the call raises \<open>InputError\<close>,
  and leaves the challenge table and every group object as they were.
\<close>

theorem daily_quota:
  assumes "\<forall>g a d. count_not_continue (challenges_of s g a d) \<le> 3"
  shows "(\<forall>g a d. count_not_continue (challenges_of (after_calls s cs) g a d) \<le> 3)
       \<and> (\<forall>g grp q b d t dmg.
             group_data s g = Some grp
             \<and> count_not_continue (challenges_of s g (attacker q b) d) = 3 \<longrightarrow>
             is_InputError (fst (damage s g q dmg b d t))
             \<and> challenge_tbl (snd (damage s g q dmg b d t)) = challenge_tbl s
             \<and> group_data (snd (damage s g q dmg b d t)) = group_data s
             \<and> is_InputError (fst (defeat s g q b d t))
             \<and> challenge_tbl (snd (defeat s g q b d t)) = challenge_tbl s
             \<and> group_data (snd (defeat s g q b d t)) = group_data s)"
proof (intro conjI allI impI)
  show "\<And>g a d. count_not_continue (challenges_of (after_calls s cs) g a d) \<le> 3"
    using quota_after_calls [OF assms] by blast
next
  fix g grp q b d t dmg
  assume "group_data s g = Some grp
             \<and> count_not_continue (challenges_of s g (attacker q b) d) = 3"
  then have init: "group_data s g = Some grp"
    and full: "3 \<le> count_not_continue (challenges_of s g (attacker q b) d)"
    by simp_all
  show "is_InputError (fst (damage s g q dmg b d t))"
    by (rule quota_reached_damage(1) [OF init full])
  show "challenge_tbl (snd (damage s g q dmg b d t)) = challenge_tbl s"
    by (rule quota_reached_damage(2) [OF init full])
  show "group_data (snd (damage s g q dmg b d t)) = group_data s"
    by (rule quota_reached_damage(3) [OF init full])
  show "is_InputError (fst (defeat s g q b d t))"
    by (simp add: quota_reached_defeat(1) [OF init full])
  show "challenge_tbl (snd (defeat s g q b d t)) = challenge_tbl s"
    by (rule quota_reached_defeat(2) [OF init full])
  show "group_data (snd (defeat s g q b d t)) = group_data s"
    by (rule quota_reached_defeat(3) [OF init full])
qed

theorem daily_quota_witness:
  "count_not_continue
     (challenges_of
        (after_calls engine0
           [Damage 1 7 100 None 20 1, Damage 1 7 100 None 20 2, Defeat 1 7 None 20 3,
            Damage 1 7 5 None 20 4, Defeat 1 7 None 20 5]) 1 7 20) \<le> 3
   \<and> count_not_continue (challenges_of third_kill 1 7 20) = 3
   \<and> is_InputError (fst (damage third_kill 1 7 5 None 20 4))
   \<and> challenge_tbl (snd (damage third_kill 1 7 5 None 20 4)) = challenge_tbl third_kill
   \<and> group_data (snd (damage third_kill 1 7 5 None 20 4)) = group_data third_kill
   \<and> is_InputError (fst (defeat third_kill 1 7 None 20 4))
   \<and> challenge_tbl (snd (defeat third_kill 1 7 None 20 4)) = challenge_tbl third_kill
   \<and> group_data (snd (defeat third_kill 1 7 None 20 4)) = group_data third_kill"
proof -
  have start: "\<forall>g a d. count_not_continue (challenges_of engine0 g a d) \<le> 3"
    by (simp add: engine0_def challenges_of_def count_not_continue_def)
  have kill: "\<forall>g a d. count_not_continue (challenges_of third_kill g a d) \<le> 3"
    using daily_quota [OF start,
        of "[Damage 1 7 100 None 20 1, Damage 1 7 100 None 20 2, Defeat 1 7 None 20 3]"]
    by (simp add: third_kill_def)
  have three: "count_not_continue (challenges_of third_kill 1 (attacker 7 None) 20) = 3"
    by (simp add: attacker_def challenges_of_def count_not_continue_def third_kill_rows)
  have run: "count_not_continue
     (challenges_of
        (after_calls engine0
           [Damage 1 7 100 None 20 1, Damage 1 7 100 None 20 2, Defeat 1 7 None 20 3,
            Damage 1 7 5 None 20 4, Defeat 1 7 None 20 5]) 1 7 20) \<le> 3"
    using daily_quota [OF start] by blast
  have fourth: "is_InputError (fst (damage third_kill 1 7 5 None 20 4))
     \<and> challenge_tbl (snd (damage third_kill 1 7 5 None 20 4)) = challenge_tbl third_kill
     \<and> group_data (snd (damage third_kill 1 7 5 None 20 4)) = group_data third_kill
     \<and> is_InputError (fst (defeat third_kill 1 7 None 20 4))
     \<and> challenge_tbl (snd (defeat third_kill 1 7 None 20 4)) = challenge_tbl third_kill
     \<and> group_data (snd (defeat third_kill 1 7 None 20 4)) = group_data third_kill"
    using daily_quota [OF kill, of "[]"] third_kill_group three by blast
  from three have "count_not_continue (challenges_of third_kill 1 7 20) = 3"
    by (simp add: attacker_def)
  with run fourth show ?thesis by simp
qed

subsection \<open>Arguments of modify\<close>

text \<open>
  C3. The claim has \<open>modify\<close> raise \<open>InputError\<close> for a cycle below 1, a boss number
  outside 1 to 5 and a health below 1. In group 1 of \<open>engine0\<close> the code accepts the
  value 0 for each of them: the boss number 0 is stored, and with the health omitted
  the health is read at index \<open>-1\<close> of the tier's row, the health of boss 5; with
  all three arguments 0 the group is left at cycle 0, boss 0 and health 0.
\<close>

theorem modify_accepts_zero:
  "fst (modify engine0 1 None (Some 0) None) =
     Inr \<lparr>cycle = 1, num = 0, health = 1500, challenger = 0\<rparr>
   \<and> map_option boss_num (group_data (snd (modify engine0 1 None (Some 0) None)) 1) = Some 0
   \<and> fst (modify engine0 1 (Some 0) (Some 0) (Some 0)) =
     Inr \<lparr>cycle = 0, num = 0, health = 0, challenger = 0\<rparr>
   \<and> map_option boss_cycle (group_data (snd (modify engine0 1 (Some 0) (Some 0) (Some 0))) 1) = Some 0
   \<and> map_option boss_health (group_data (snd (modify engine0 1 (Some 0) (Some 0) (Some 0))) 1) = Some 0
   \<and> fst (modify engine0 1 (Some (- 1)) None None) = Inl (InputError Bad_cycle)
   \<and> fst (modify engine0 1 None (Some 6) None) = Inl (InputError Bad_boss_num)"
  by code_simp

subsection \<open>Groups that were never created\<close>

lemma modify_unknown:
  assumes "group_data s g = None"
  shows "snd (modify s g cyc bn bh) = s"
    and "is_InputError (fst (modify s g cyc bn bh))
         \<or> fst (modify s g cyc bn bh) = Inl (GroupError Not_initialized)"
    and "\<not> truthy_and cyc (\<lambda>c. c < 1) \<Longrightarrow> \<not> truthy_and bn (\<lambda>n. n < 1 \<or> n > 5) \<Longrightarrow>
         \<not> truthy_and bh (\<lambda>h. h < 1) \<Longrightarrow>
         fst (modify s g cyc bn bh) = Inl (GroupError Not_initialized)"
  using assms by (simp_all add: modify_def)

text \<open>
  C4, as the code has it. For a group that is not in \<open>_group_data\<close>, every operation
  but \<open>cancel_subscribe\<close> fails and leaves the engine exactly as it was, so that the
  group is not created: \<open>defeat\<close>, \<open>undo\<close>, \<open>restart\<close>, \<open>apply_for_challenge\<close>,
  \<open>cancel_application\<close>, \<open>add_subscribe\<close>, \<open>notify_subscribe\<close>, \<open>boss_status_summary\<close>
  and \<open>get_report\<close> raise \<open>GroupError\<close>; \<open>damage\<close> raises \<open>GroupError\<close> for an amount
  that is not negative and \<open>InputError\<close> for a negative one; \<open>modify\<close> raises
  \<open>GroupError\<close> when each given argument is in its range (cycle and health at least
  1, boss number from 1 to 5) and \<open>InputError\<close> or \<open>GroupError\<close> otherwise.
  \<open>cancel_subscribe\<close> does not fail: it returns the number of subscription rows it
  deleted, and it does not create the group either.
\<close>

theorem unknown_group:
  assumes "group_data s g = None"
  shows "(0 \<le> dmg \<longrightarrow> fst (damage s g q dmg b d t) = Inl (GroupError Not_initialized))
       \<and> (dmg < 0 \<longrightarrow> fst (damage s g q dmg b d t) = Inl (InputError Negative_damage))
       \<and> snd (damage s g q dmg b d t) = s
       \<and> defeat s g q b d t = (Inl (GroupError Not_initialized), s)
       \<and> undo s g q = (Inl (GroupError Not_initialized), s)
       \<and> ((\<forall>c. cyc = Some c \<longrightarrow> 1 \<le> c) \<and> (\<forall>n. bn = Some n \<longrightarrow> 1 \<le> n \<and> n \<le> 5)
            \<and> (\<forall>h. bh = Some h \<longrightarrow> 1 \<le> h) \<longrightarrow>
            fst (modify s g cyc bn bh) = Inl (GroupError Not_initialized))
       \<and> (is_InputError (fst (modify s g cyc bn bh))
            \<or> fst (modify s g cyc bn bh) = Inl (GroupError Not_initialized))
       \<and> snd (modify s g cyc bn bh) = s
       \<and> restart s g = (Inl (GroupError Not_initialized), s)
       \<and> apply_for_challenge s g q now = (Inl (GroupError Not_initialized), s)
       \<and> cancel_application s g q now = (Inl (GroupError Not_initialized), s)
       \<and> add_subscribe s g q n = (Inl (GroupError Not_initialized), s)
       \<and> notify_subscribe s g n_opt = (Inl (GroupError Not_initialized), s)
       \<and> boss_status_summary s g = (Inl (GroupError Not_initialized), s)
       \<and> get_report s g q_opt d_opt = Inl (GroupError Not_initialized)
       \<and> fst (cancel_subscribe s g q n) =
            Inr (int (length (filter (\<lambda>sub. s_gid sub = g \<and> s_qqid sub = q
                                            \<and> subscribe_item sub = n) (subscribe_tbl s))))
       \<and> group_data (snd (cancel_subscribe s g q n)) g = None"
proof (intro conjI impI)
  assume "(\<forall>c. cyc = Some c \<longrightarrow> 1 \<le> c) \<and> (\<forall>n. bn = Some n \<longrightarrow> 1 \<le> n \<and> n \<le> 5)
            \<and> (\<forall>h. bh = Some h \<longrightarrow> 1 \<le> h)"
  then have "\<not> truthy_and cyc (\<lambda>c. c < 1)" "\<not> truthy_and bn (\<lambda>n. n < 1 \<or> n > 5)"
    "\<not> truthy_and bh (\<lambda>h. h < 1)"
    by (auto simp add: truthy_and_def split: option.split)
  then show "fst (modify s g cyc bn bh) = Inl (GroupError Not_initialized)"
    by (rule modify_unknown(3) [OF assms])
next
  show "is_InputError (fst (modify s g cyc bn bh))
            \<or> fst (modify s g cyc bn bh) = Inl (GroupError Not_initialized)"
    by (rule modify_unknown(2) [OF assms])
  show "snd (modify s g cyc bn bh) = s"
    by (rule modify_unknown(1) [OF assms])
qed (simp_all add: assms damage_unfold defeat_unfold undo_def restart_def
       apply_for_challenge_def cancel_application_def add_subscribe_def
       notify_subscribe_def boss_status_summary_def get_report_def cancel_subscribe_def)

theorem unknown_group_witness:
  "fst (damage engine0 99 7 5 None 20 1) = Inl (GroupError Not_initialized)
   \<and> fst (damage engine0 99 7 (- 5) None 20 1) = Inl (InputError Negative_damage)
   \<and> defeat engine0 99 7 None 20 1 = (Inl (GroupError Not_initialized), engine0)
   \<and> fst (modify engine0 99 (Some 2) (Some 3) None) = Inl (GroupError Not_initialized)
   \<and> fst (cancel_subscribe engine0 99 7 0) = Inr 0
   \<and> group_data (snd (cancel_subscribe engine0 99 7 0)) 99 = None"
proof -
  have none: "group_data engine0 99 = None"
    by (simp add: engine0_def)
  show ?thesis
    using unknown_group [OF none, where dmg = 5 and q = 7 and b = None and d = 20 and t = 1
            and cyc = "Some 2" and bn = "Some 3" and bh = None and n = 0]
          unknown_group [OF none, where dmg = "- 5" and q = 7 and b = None and d = 20 and t = 1]
    by (simp add: engine0_def)
qed

text \<open>
  C4, as the claim has it, fails for \<open>cancel_subscribe\<close>: group 99 was never created
  and the call returns 0.
\<close>

theorem cancel_subscribe_unknown_group_returns:
  "group_data engine0 99 = None
   \<and> fst (cancel_subscribe engine0 99 7 0) = Inr 0
   \<and> \<not> is_GroupError (fst (cancel_subscribe engine0 99 7 0))"
  by (simp add: engine0_def cancel_subscribe_def)

subsection \<open>Damage within the health of the boss\<close>

text \<open>
  C5. In an initialized group, \<open>damage\<close> raises \<open>InputError\<close> (and leaves the engine as
  it was) when the amount is negative or at least the health of the boss; an amount
  from 0 up to the health minus 1, reported for an attacker with fewer than three
  counted rows that battle-day, is accepted, and the health of the group and of the
  returned status is the old health minus the amount.
\<close>

theorem damage_health_bound:
  assumes "group_data s g = Some grp"
  shows "(dmg < 0 \<or> boss_health grp \<le> dmg \<longrightarrow>
            is_InputError (fst (damage s g q dmg b d t)) \<and> snd (damage s g q dmg b d t) = s)
       \<and> (0 \<le> dmg \<and> dmg < boss_health grp
            \<and> count_not_continue (challenges_of s g (attacker q b) d) < 3 \<longrightarrow>
            fst (damage s g q dmg b d t) =
              Inr \<lparr>cycle = boss_cycle grp, num = boss_num grp,
                   health = boss_health grp - dmg, challenger = 0\<rparr>
            \<and> map_option boss_health (group_data (snd (damage s g q dmg b d t)) g) =
                Some (boss_health grp - dmg))"
  using assms by (simp add: damage_unfold)

theorem damage_health_bound_witness:
  "is_InputError (fst (damage engine0 1 7 (- 1) None 20 1))
   \<and> is_InputError (fst (damage engine0 1 7 600 None 20 1))
   \<and> fst (damage engine0 1 7 250 None 20 1) = Inr \<lparr>cycle = 1, num = 1, health = 350, challenger = 0\<rparr>
   \<and> map_option boss_health (group_data (snd (damage engine0 1 7 250 None 20 1)) 1) = Some 350"
proof -
  have g: "group_data engine0 1 = Some group1"
    by (simp add: engine0_def)
  have c: "count_not_continue (challenges_of engine0 1 (attacker 7 None) 20) < 3"
    by (simp add: engine0_def challenges_of_def count_not_continue_def)
  show ?thesis
    using damage_health_bound [OF g, of "- 1" 7 None 20 1]
          damage_health_bound [OF g, of 600 7 None 20 1]
          damage_health_bound [OF g, of 250 7 None 20 1] c
    by (simp add: group1_def)
qed

subsection \<open>How the health moves\<close>





lemma non_negative_get_or_create [simp]:
  "non_negative (snd (get_or_create s q x)) = non_negative s"
  by (simp add: non_negative_def)

lemma non_negative_get_nickname [simp]:
  "non_negative (get_nickname_by_qqid s q) = non_negative s"
  by (simp add: non_negative_def)






















subsection \<open>The rotation of the bosses\<close>

text \<open>
  C7. In an initialized group, an accepted \<open>defeat\<close> of boss 5 leaves the group at boss
  1 of the next cycle, an accepted \<open>defeat\<close> of a boss \<open>k < 5\<close> at boss \<open>k + 1\<close> of the
  same cycle; the returned status shows that boss. The new health is the entry of the
  stage table of the group's server at the tier of the new cycle and at the index of
  the new boss, the tier being 0 up to cycle 3, 1 up to cycle 10, and then 2, or 3
  when \<open>level_4\<close> is set and the cycle is at least 35. The challenge slot is free.
\<close>

theorem defeat_rotation:
  assumes init: "group_data s g = Some grp"
    and ok: "fst (defeat s g q b d t) = Inr st"
  shows "\<exists>grp'. group_data (snd (defeat s g q b d t)) g = Some grp'
           \<and> (boss_num grp = 5 \<longrightarrow> boss_num grp' = 1 \<and> boss_cycle grp' = boss_cycle grp + 1)
           \<and> (boss_num grp < 5 \<longrightarrow>
                boss_num grp' = boss_num grp + 1 \<and> boss_cycle grp' = boss_cycle grp)
           \<and> (\<exists>levels row.
                bossinfo s (game_server grp) = Some levels
                \<and> subscript levels
                     (if boss_cycle grp' \<le> 3 then 0
                      else if boss_cycle grp' \<le> 10 then 1
                      else if level_4 grp \<and> 35 \<le> boss_cycle grp' then 3
                      else 2) = Inr row
                \<and> subscript row (boss_num grp' - 1) = Inr (boss_health grp'))
           \<and> full_health s (game_server grp) (boss_cycle grp') (level_4 grp) (boss_num grp')
                = Inr (boss_health grp')
           \<and> challenging_member_qq_id grp' = None
           \<and> game_server grp' = game_server grp \<and> level_4 grp' = level_4 grp
           \<and> st = \<lparr>cycle = boss_cycle grp', num = boss_num grp',
                    health = boss_health grp', challenger = 0\<rparr>"
proof -
  note facts = defeat_success [OF init ok]
  let ?grp' = "(next_boss grp)\<lparr>boss_health := health st, challenging_member_qq_id := None\<rparr>"
  have table: "\<exists>levels row.
                bossinfo s (game_server grp) = Some levels
                \<and> subscript levels
                     (if boss_cycle ?grp' \<le> 3 then 0
                      else if boss_cycle ?grp' \<le> 10 then 1
                      else if level_4 grp \<and> 35 \<le> boss_cycle ?grp' then 3
                      else 2) = Inr row
                \<and> subscript row (boss_num ?grp' - 1) = Inr (boss_health ?grp')"
    using facts(1)
    by (auto simp add: full_health_def level_by_cycle_def split: option.splits sum.splits)
  have "group_data (snd (defeat s g q b d t)) g = Some ?grp'"
    by (rule facts(3))
  moreover have "boss_num grp = 5 \<longrightarrow> boss_num ?grp' = 1 \<and> boss_cycle ?grp' = boss_cycle grp + 1"
    by (simp add: next_boss_def)
  moreover have "boss_num grp < 5 \<longrightarrow>
      boss_num ?grp' = boss_num grp + 1 \<and> boss_cycle ?grp' = boss_cycle grp"
    by (simp add: next_boss_def)
  moreover have "full_health s (game_server grp) (boss_cycle ?grp') (level_4 grp) (boss_num ?grp')
      = Inr (boss_health ?grp')"
    using facts(1) by simp
  moreover have "challenging_member_qq_id ?grp' = None"
    "game_server ?grp' = game_server grp" "level_4 ?grp' = level_4 grp"
    by simp_all
  moreover have "st = \<lparr>cycle = boss_cycle ?grp', num = boss_num ?grp',
                    health = boss_health ?grp', challenger = 0\<rparr>"
    using facts(2) by simp
  ultimately show ?thesis
    using table by blast
qed

theorem defeat_rotation_witness:
  "group_data (snd (defeat engine0 1 7 None 20 1)) 1 =
     Some \<lparr>group_id = 1, game_server = ''jp'', boss_cycle = 1, boss_num = 2,
           boss_health = 800, challenging_member_qq_id = None,
           challenging_start_time = 0, level_4 = False\<rparr>
   \<and> (\<exists>grp'. group_data (snd (defeat last_boss 1 7 None 20 1)) 1 = Some grp'
         \<and> boss_num grp' = 1 \<and> boss_cycle grp' = 4 \<and> boss_health grp' = 601
         \<and> challenging_member_qq_id grp' = None)"
proof -
  have first: "fst (defeat engine0 1 7 None 20 1) =
      Inr \<lparr>cycle = 1, num = 2, health = 800, challenger = 0\<rparr>"
    by code_simp
  have last: "fst (defeat last_boss 1 7 None 20 1) =
      Inr \<lparr>cycle = 4, num = 1, health = 601, challenger = 0\<rparr>"
    by code_simp
  have "group_data (snd (defeat engine0 1 7 None 20 1)) 1 =
     Some \<lparr>group_id = 1, game_server = ''jp'', boss_cycle = 1, boss_num = 2,
           boss_health = 800, challenging_member_qq_id = None,
           challenging_start_time = 0, level_4 = False\<rparr>"
    by code_simp
  moreover have "\<exists>grp'. group_data (snd (defeat last_boss 1 7 None 20 1)) 1 = Some grp'
         \<and> boss_num grp' = 1 \<and> boss_cycle grp' = 4 \<and> boss_health grp' = 601
         \<and> challenging_member_qq_id grp' = None"
    using defeat_rotation [OF last_boss_group last] by auto
  ultimately show ?thesis
    using defeat_rotation [OF engine0_group first] by blast
qed

subsection \<open>Undoing the last report\<close>

lemma get_previous_challenge_last:
  assumes "challenge_tbl s = tbl @ [r]" and "gid r = g"
  shows "get_previous_challenge s g = Some r"
proof -
  have "filter (\<lambda>c. gid c = g) (challenge_tbl s) = filter (\<lambda>c. gid c = g) tbl @ [r]"
    using assms by simp
  then show ?thesis
    by (cases "filter (\<lambda>c. gid c = g) tbl") (simp_all add: get_previous_challenge_def)
qed

lemma delete_previous_challenge_last:
  "gid r = g \<Longrightarrow> delete_previous_challenge g (tbl @ [r]) = tbl"
  by (simp add: delete_previous_challenge_def)

lemma get_previous_challenge_none:
  "filter (\<lambda>c. gid c = g) (challenge_tbl s) = [] \<Longrightarrow> get_previous_challenge s g = None"
  by (simp add: get_previous_challenge_def)

lemma undo_last_own:
  assumes grp: "group_data s g = Some grp"
    and tbl: "challenge_tbl s = tbl @ [r]"
    and own: "gid r = g" "qqid r = a"
  shows "fst (undo s g a) =
           Inr \<lparr>cycle = c_boss_cycle r, num = c_boss_num r,
                health = boss_health_ramain r + challenge_damage r, challenger = 0\<rparr>"
    and "group_data (snd (undo s g a)) g =
           Some (grp\<lparr>boss_cycle := c_boss_cycle r, boss_num := c_boss_num r,
                     boss_health := boss_health_ramain r + challenge_damage r,
                     challenging_member_qq_id := None\<rparr>)"
    and "challenge_tbl (snd (undo s g a)) = tbl"
  using grp own
  by (simp_all add: undo_def Let_def get_previous_challenge_last [OF tbl own(1)]
        delete_previous_challenge_last tbl)

text \<open>
  C8. In an initialized group, when \<open>damage\<close> is accepted and the attacker it was
  accounted to calls \<open>undo\<close> next, \<open>undo\<close> succeeds, the cycle, the boss number and the
  health of the group are what they were before the \<open>damage\<close> call, and the challenge
  table is what it was before: the appended row is gone. When the group has no row
  in the challenge table, \<open>undo\<close> raises \<open>GroupError\<close>.
\<close>

theorem damage_undo_roundtrip:
  assumes init: "group_data s g = Some grp"
  shows "(\<forall>st. fst (damage s g q dmg b d t) = Inr st \<longrightarrow>
            fst (undo (snd (damage s g q dmg b d t)) g (attacker q b)) =
              Inr \<lparr>cycle = boss_cycle grp, num = boss_num grp,
                   health = boss_health grp, challenger = 0\<rparr>
            \<and> map_option boss_cycle
                 (group_data (snd (undo (snd (damage s g q dmg b d t)) g (attacker q b))) g)
               = Some (boss_cycle grp)
            \<and> map_option boss_num
                 (group_data (snd (undo (snd (damage s g q dmg b d t)) g (attacker q b))) g)
               = Some (boss_num grp)
            \<and> map_option boss_health
                 (group_data (snd (undo (snd (damage s g q dmg b d t)) g (attacker q b))) g)
               = Some (boss_health grp)
            \<and> challenge_tbl (snd (undo (snd (damage s g q dmg b d t)) g (attacker q b)))
               = challenge_tbl s)
       \<and> (filter (\<lambda>c. gid c = g) (challenge_tbl s) = [] \<longrightarrow>
            fst (undo s g q) = Inl (GroupError No_record)
            \<and> group_data (snd (undo s g q)) = group_data s
            \<and> challenge_tbl (snd (undo s g q)) = challenge_tbl s)"
proof (intro conjI allI impI)
  fix st
  assume ok: "fst (damage s g q dmg b d t) = Inr st"
  let ?s1 = "snd (damage s g q dmg b d t)"
  let ?r = "damage_row grp g (attacker q b) d t dmg
              (continue_flag (challenges_of s g (attacker q b) d))"
  have grp1: "group_data ?s1 g =
      Some (grp\<lparr>boss_health := boss_health grp - dmg, challenging_member_qq_id := None\<rparr>)"
    by (rule damage_success(4) [OF init ok])
  have tbl1: "challenge_tbl ?s1 = challenge_tbl s @ [?r]"
    by (rule damage_success_tbl [OF init ok])
  have own: "gid ?r = g" "qqid ?r = attacker q b"
    by simp_all
  note undone = undo_last_own [OF grp1 tbl1 own]
  show "fst (undo ?s1 g (attacker q b)) =
      Inr \<lparr>cycle = boss_cycle grp, num = boss_num grp,
           health = boss_health grp, challenger = 0\<rparr>"
    using undone(1) by simp
  show "map_option boss_cycle (group_data (snd (undo ?s1 g (attacker q b))) g)
      = Some (boss_cycle grp)"
    by (simp add: undone(2))
  show "map_option boss_num (group_data (snd (undo ?s1 g (attacker q b))) g)
      = Some (boss_num grp)"
    by (simp add: undone(2))
  show "map_option boss_health (group_data (snd (undo ?s1 g (attacker q b))) g)
      = Some (boss_health grp)"
    by (simp add: undone(2))
  show "challenge_tbl (snd (undo ?s1 g (attacker q b))) = challenge_tbl s"
    by (rule undone(3))
next
  assume empty: "filter (\<lambda>c. gid c = g) (challenge_tbl s) = []"
  show "fst (undo s g q) = Inl (GroupError No_record)"
    "group_data (snd (undo s g q)) = group_data s"
    "challenge_tbl (snd (undo s g q)) = challenge_tbl s"
    using init by (simp_all add: undo_def Let_def get_previous_challenge_none [OF empty])
qed

theorem damage_undo_roundtrip_witness:
  "fst (undo (snd (damage followed_up 1 7 95 None 20 3)) 1 7) =
     Inr \<lparr>cycle = 1, num = 2, health = 795, challenger = 0\<rparr>
   \<and> challenge_tbl (snd (undo (snd (damage followed_up 1 7 95 None 20 3)) 1 7)) =
       challenge_tbl followed_up
   \<and> fst (undo engine0 1 7) = Inl (GroupError No_record)"
proof -
  have hit: "fst (damage followed_up 1 7 95 None 20 3) =
      Inr \<lparr>cycle = 1, num = 2, health = 700, challenger = 0\<rparr>"
    by code_simp
  have empty: "filter (\<lambda>c. gid c = 1) (challenge_tbl engine0) = []"
    by (simp add: engine0_def)
  show ?thesis
    using damage_undo_roundtrip [OF followed_up_group, where q = 7 and dmg = 95 and b = None
            and d = 20 and t = 3] hit
          damage_undo_roundtrip [OF engine0_group, where q = 7] empty
    by (simp add: attacker_def)
qed

subsection \<open>Giving up the challenge slot\<close>

text \<open>
  C9, as the code has it. In an initialized group, \<open>cancel_application\<close> raises
  \<open>GroupError\<close> when nobody holds the slot. When the slot is held, the holder's own
  call succeeds at any time and frees the slot. A call by somebody else whose
  \<open>authority_group\<close> is at least 100 raises the \<open>GroupError\<close> that reports the seconds
  since the claim while fewer than 180 seconds have passed, and leaves the slot held;
  from 180 seconds on it succeeds and frees the slot.
\<close>

theorem slot_cancel:
  assumes init: "group_data s g = Some grp"
  shows "(challenging_member_qq_id grp = None \<longrightarrow>
            cancel_application s g q now = (Inl (GroupError Nobody_challenging), s))
       \<and> (challenging_member_qq_id grp = Some q \<longrightarrow>
            fst (cancel_application s g q now) =
              Inr \<lparr>cycle = boss_cycle grp, num = boss_num grp,
                   health = boss_health grp, challenger = 0\<rparr>
            \<and> map_option challenging_member_qq_id
                 (group_data (snd (cancel_application s g q now)) g) = Some None)
       \<and> (\<forall>holder. challenging_member_qq_id grp = Some holder \<and> holder \<noteq> q
              \<and> 100 \<le> authority_of s q \<longrightarrow>
            (now - challenging_start_time grp < 180 \<longrightarrow>
               fst (cancel_application s g q now) =
                 Inl (GroupError (Started_ago holder (now - challenging_start_time grp)))
               \<and> group_data (snd (cancel_application s g q now)) = group_data s)
            \<and> (180 \<le> now - challenging_start_time grp \<longrightarrow>
               fst (cancel_application s g q now) =
                 Inr \<lparr>cycle = boss_cycle grp, num = boss_num grp,
                      health = boss_health grp, challenger = 0\<rparr>
               \<and> map_option challenging_member_qq_id
                    (group_data (snd (cancel_application s g q now)) g) = Some None))"
proof (intro conjI allI impI)
  assume "challenging_member_qq_id grp = None"
  then show "cancel_application s g q now = (Inl (GroupError Nobody_challenging), s)"
    using init by (simp add: cancel_application_def)
next
  assume own: "challenging_member_qq_id grp = Some q"
  show "fst (cancel_application s g q now) =
      Inr \<lparr>cycle = boss_cycle grp, num = boss_num grp,
           health = boss_health grp, challenger = 0\<rparr>"
    by (simp add: cancel_application_held [OF init own])
  show "map_option challenging_member_qq_id
      (group_data (snd (cancel_application s g q now)) g) = Some None"
    by (simp add: cancel_application_held [OF init own])
next
  fix holder
  assume other: "challenging_member_qq_id grp = Some holder \<and> holder \<noteq> q
              \<and> 100 \<le> authority_of s q"
  then have held: "challenging_member_qq_id grp = Some holder"
    by simp
  show "fst (cancel_application s g q now) =
      Inl (GroupError (Started_ago holder (now - challenging_start_time grp)))"
    if "now - challenging_start_time grp < 180"
    using that other by (simp add: cancel_application_held [OF init held])
  show "group_data (snd (cancel_application s g q now)) = group_data s"
    if "now - challenging_start_time grp < 180"
    using that other by (simp add: cancel_application_held [OF init held])
  show "fst (cancel_application s g q now) =
      Inr \<lparr>cycle = boss_cycle grp, num = boss_num grp,
           health = boss_health grp, challenger = 0\<rparr>"
    if "180 \<le> now - challenging_start_time grp"
    using that by (simp add: cancel_application_held [OF init held])
  show "map_option challenging_member_qq_id
      (group_data (snd (cancel_application s g q now)) g) = Some None"
    if "180 \<le> now - challenging_start_time grp"
    using that by (simp add: cancel_application_held [OF init held])
qed

theorem slot_cancel_witness:
  "fst (cancel_application engine0 1 7 1001) = Inl (GroupError Nobody_challenging)
   \<and> fst (cancel_application claimed 1 7 1001) =
       Inr \<lparr>cycle = 1, num = 1, health = 600, challenger = 0\<rparr>
   \<and> fst (cancel_application claimed 1 8 1100) = Inl (GroupError (Started_ago 7 100))
   \<and> map_option challenging_member_qq_id
        (group_data (snd (cancel_application claimed 1 8 1100)) 1) = Some (Some 7)
   \<and> fst (cancel_application claimed 1 8 1180) =
       Inr \<lparr>cycle = 1, num = 1, health = 600, challenger = 0\<rparr>
   \<and> map_option challenging_member_qq_id
        (group_data (snd (cancel_application claimed 1 8 1180)) 1) = Some None"
  using slot_cancel [OF engine0_group, of 7 1001]
        slot_cancel [OF claimed_group, of 7 1001]
        slot_cancel [OF claimed_group, of 8 1100]
        slot_cancel [OF claimed_group, of 8 1180]
  by (simp add: claimed_authority claimed_group group1_def)

text \<open>
  C9, as the claim has it, fails for an administrator: user 2, of authority 10, is not
  the holder and cancels the claim of attacker 7 one second after it was made.
\<close>

theorem slot_cancel_by_administrator:
  "map_option challenging_member_qq_id (group_data claimed 1) = Some (Some 7)
   \<and> map_option challenging_start_time (group_data claimed 1) = Some 1000
   \<and> fst (cancel_application claimed 1 2 1001) =
       Inr \<lparr>cycle = 1, num = 1, health = 600, challenger = 0\<rparr>
   \<and> map_option challenging_member_qq_id
        (group_data (snd (cancel_application claimed 1 2 1001)) 1) = Some None"
  by code_simp

subsection \<open>The authority of the requester\<close>

text \<open>
  C10. When the slot of an initialized group is held, a \<open>cancel_application\<close> by a
  requester who is not the holder and whose \<open>authority_group\<close> is below 100 succeeds
  and frees the slot, whatever the time since the claim. The call is refused exactly
  when the requester is not the holder, has an \<open>authority_group\<close> of at least 100, and
  fewer than 180 seconds have passed since the claim.
\<close>

theorem privileged_cancel:
  assumes init: "group_data s g = Some grp"
    and held: "challenging_member_qq_id grp = Some holder"
  shows "(holder \<noteq> q \<and> authority_of s q < 100 \<longrightarrow>
            fst (cancel_application s g q now) =
              Inr \<lparr>cycle = boss_cycle grp, num = boss_num grp,
                   health = boss_health grp, challenger = 0\<rparr>
            \<and> map_option challenging_member_qq_id
                 (group_data (snd (cancel_application s g q now)) g) = Some None)
       \<and> (is_GroupError (fst (cancel_application s g q now)) \<longleftrightarrow>
            holder \<noteq> q \<and> 100 \<le> authority_of s q
            \<and> now - challenging_start_time grp < 180)"
  by (simp add: cancel_application_held [OF init held])

theorem privileged_cancel_witness:
  "fst (cancel_application claimed 1 2 1001) =
     Inr \<lparr>cycle = 1, num = 1, health = 600, challenger = 0\<rparr>
   \<and> map_option challenging_member_qq_id
        (group_data (snd (cancel_application claimed 1 2 1001)) 1) = Some None
   \<and> is_GroupError (fst (cancel_application claimed 1 8 1001))
   \<and> \<not> is_GroupError (fst (cancel_application claimed 1 8 1180))"
proof -
  have held: "challenging_member_qq_id
      \<lparr>group_id = 1, game_server = ''jp'', boss_cycle = 1, boss_num = 1,
       boss_health = 600, challenging_member_qq_id = Some 7,
       challenging_start_time = 1000, level_4 = False\<rparr> = Some 7"
    by simp
  show ?thesis
    using privileged_cancel [OF claimed_group held, of 2 1001]
          privileged_cancel [OF claimed_group held, of 8 1001]
          privileged_cancel [OF claimed_group held, of 8 1180]
    by (simp add: claimed_authority)
qed

end
